theory Spec2Isabelle
  imports Complex_Main "HOL-Library.Word" "HOL-Library.Log_Nat"
begin

unbundle bit_operations_syntax

section \<open>Protocol primitives (protocol.py)\<close>

text \<open>
  A Python \<open>bytes\<close> or \<open>bytearray\<close> object is a list of 8-bit words; indexing it yields a
  Python integer in \<open>0..255\<close>, read off with \<open>uint\<close>. Python integers are unbounded
  and are modelled by \<open>int\<close>. Every exception that the modelled code can raise is a
  value of the type \<open>error\<close>.
\<close>

type_synonym byte = "8 word"

datatype error =
    ValueError
  | IndexError
  | StructError
  | TypeError
  | TimeoutError
  | CancelledError
  | BleakError string
  | OtherError
  | UpdateFailed string

definition COMMAND_PREFIX :: "byte list" where
  "COMMAND_PREFIX = [0xBE, 0xEF]"

definition STATE_INDEX_POWER :: nat where "STATE_INDEX_POWER = 10"
definition STATE_INDEX_POWER_IN :: nat where "STATE_INDEX_POWER_IN = 28"
definition STATE_INDEX_POWER_OUT :: nat where "STATE_INDEX_POWER_OUT = 32"
definition STATE_INDEX_BRIGHTNESS :: nat where "STATE_INDEX_BRIGHTNESS = 12"
definition STATE_INDEX_MINI_HEATING :: nat where "STATE_INDEX_MINI_HEATING = 14"
definition STATE_INDEX_NIGHT_MODE :: nat where "STATE_INDEX_NIGHT_MODE = 16"
definition STATE_INDEX_BOOST_MODE :: nat where "STATE_INDEX_BOOST_MODE = 18"
definition STATE_INDEX_AUTO_MODE :: nat where "STATE_INDEX_AUTO_MODE = 20"
definition STATE_INDEX_FLOWS_LOCKED :: nat where "STATE_INDEX_FLOWS_LOCKED = 22"
definition STATE_INDEX_SPEED :: nat where "STATE_INDEX_SPEED = 26"
definition STATE_INDEX_SPEED_IN :: nat where "STATE_INDEX_SPEED_IN = 30"
definition STATE_INDEX_SPEED_OUT :: nat where "STATE_INDEX_SPEED_OUT = 34"
definition STATE_INDEX_WINTER_MODE :: nat where "STATE_INDEX_WINTER_MODE = 42"
definition STATE_INDEX_TEMP_IN :: nat where "STATE_INDEX_TEMP_IN = 48"
definition STATE_INDEX_TEMP_OUTSIDE :: nat where "STATE_INDEX_TEMP_OUTSIDE = 51"
definition STATE_INDEX_TEMP_OUT :: nat where "STATE_INDEX_TEMP_OUT = 54"
definition STATE_INDEX_HUMIDITY :: nat where "STATE_INDEX_HUMIDITY = 60"
definition STATE_INDEX_CO2 :: nat where "STATE_INDEX_CO2 = 61"
definition STATE_INDEX_TVOC :: nat where "STATE_INDEX_TVOC = 63"
definition STATE_INDEX_PRESSURE :: nat where "STATE_INDEX_PRESSURE = 77"
definition STATE_INDEX_DISPLAY :: nat where "STATE_INDEX_DISPLAY = 99"

definition MAX_BRIGHTNESS :: int where "MAX_BRIGHTNESS = 6"
definition MAX_SPEED :: int where "MAX_SPEED = 10"

subsection \<open>Commands\<close>

text \<open>
  \<open>bytes(command)\<close> on a tuple of integers raises \<open>ValueError\<close> as soon as one of them
  lies outside \<open>range(256)\<close>; otherwise it is the byte string of these values.
\<close>

definition bytes_of_ints :: "int list \<Rightarrow> error + byte list" where
  "bytes_of_ints xs =
     (if list_all (\<lambda>x. 0 \<le> x \<and> x < 256) xs then Inr (map word_of_int xs) else Inl ValueError)"

record PranaCommand =
  payload :: "byte list"

record PranaDisplayCommand = PranaCommand +
  name :: string

text \<open>\<open>PranaCommand.__init__(self, *command)\<close>: the payload is the prefix followed by the bytes.\<close>

definition PranaCommand_init :: "int list \<Rightarrow> error + PranaCommand" where
  "PranaCommand_init command =
     (case bytes_of_ints command of
        Inl e \<Rightarrow> Inl e
      | Inr bs \<Rightarrow> Inr \<lparr>payload = COMMAND_PREFIX @ bs\<rparr>)"

definition REQUEST_STATE :: "error + PranaCommand" where
  "REQUEST_STATE = PranaCommand_init [0x05, 0x01, 0x00, 0x00, 0x00, 0x00, 0x5A]"

definition SET_BYTE :: int where
  "SET_BYTE = 0x04"

text \<open>\<open>PranaSetCommand.__init__(self, last_byte)\<close> calls the parent with the set byte first.\<close>

definition PranaSetCommand_init :: "int \<Rightarrow> error + PranaCommand" where
  "PranaSetCommand_init last_byte = PranaCommand_init [SET_BYTE, last_byte]"

definition PranaDisplayCommand_init :: "string \<Rightarrow> int \<Rightarrow> error + PranaDisplayCommand" where
  "PranaDisplayCommand_init nm last_byte =
     (case PranaSetCommand_init last_byte of
        Inl e \<Rightarrow> Inl e
      | Inr c \<Rightarrow> Inr \<lparr>payload = payload c, name = nm\<rparr>)"

text \<open>
  A dictionary display or comprehension evaluates its values in order; the first one
  that raises aborts the construction. The keys below are pairwise distinct, so the
  association list read with \<open>map_of\<close> is the dictionary.
\<close>

fun dict_of :: "('k \<times> (error + 'v)) list \<Rightarrow> error + ('k \<times> 'v) list" where
  "dict_of [] = Inr []"
| "dict_of ((k, r) # rest) =
     (case r of
        Inl e \<Rightarrow> Inl e
      | Inr v \<Rightarrow> (case dict_of rest of Inl e \<Rightarrow> Inl e | Inr kvs \<Rightarrow> Inr ((k, v) # kvs)))"

definition dict_comp :: "('k \<Rightarrow> error + 'v) \<Rightarrow> 'k list \<Rightarrow> error + ('k \<times> 'v) list" where
  "dict_comp f ks = dict_of (map (\<lambda>k. (k, f k)) ks)"

text \<open>\<open>range(n)\<close> for an integer \<open>n\<close>.\<close>

definition range_py :: "int \<Rightarrow> int list" where
  "range_py n = [0..n - 1]"

definition DISPLAY :: "error + (int \<times> PranaDisplayCommand) list" where
  "DISPLAY = dict_of [
     (0x0, PranaDisplayCommand_init ''fan'' 0x62),
     (0x1, PranaDisplayCommand_init ''temp_in'' 0x5B),
     (0x2, PranaDisplayCommand_init ''temp_out'' 0x5C),
     (0x3, PranaDisplayCommand_init ''co2'' 0x5D),
     (0x4, PranaDisplayCommand_init ''tvoc'' 0x5E),
     (0x5, PranaDisplayCommand_init ''humidity'' 0x5F),
     (0x6, PranaDisplayCommand_init ''efficiency'' 0x60),
     (0x7, PranaDisplayCommand_init ''pressure'' 0x61),
     (0x9, PranaDisplayCommand_init ''date'' 0x63),
     (0xA, PranaDisplayCommand_init ''time'' 0x64)]"

definition TOGGLE :: "error + PranaCommand" where
  "TOGGLE = PranaSetCommand_init 0x0A"

definition TOGGLE_IN :: "error + PranaCommand" where
  "TOGGLE_IN = PranaSetCommand_init 0x0D"

definition TOGGLE_OUT :: "error + PranaCommand" where
  "TOGGLE_OUT = PranaSetCommand_init 0x10"

definition SPEED_IN :: "error + (int \<times> PranaCommand) list" where
  "SPEED_IN =
     dict_comp (\<lambda>i. if i = 0 then TOGGLE_IN else PranaSetCommand_init (30 + i))
       (range_py (MAX_SPEED + 1))"

definition SPEED_OUT :: "error + (int \<times> PranaCommand) list" where
  "SPEED_OUT =
     dict_comp (\<lambda>i. if i = 0 then TOGGLE_OUT else PranaSetCommand_init (40 + i))
       (range_py (MAX_SPEED + 1))"

definition SPEED :: "error + (int \<times> PranaCommand) list" where
  "SPEED =
     dict_comp (\<lambda>i. if i = 0 then TOGGLE else PranaSetCommand_init (50 + i))
       (range_py (MAX_SPEED + 1))"

subsection \<open>Reading the state payload\<close>

text \<open>\<open>data[i]\<close> for a non-negative index: the byte as an integer, or \<open>IndexError\<close>.\<close>

definition getitem :: "byte list \<Rightarrow> nat \<Rightarrow> error + int" where
  "getitem data i = (if i < length data then Inr (uint (data ! i)) else Inl IndexError)"

text \<open>
  \<open>struct.unpack_from(">h", data, offset)[0]\<close> for a non-negative offset (all offsets of
  the module are): two bytes, most significant first, read as a two's-complement 16-bit
  integer; \<open>struct.error\<close> when fewer than two bytes are left at the offset.
\<close>

definition unpack_from_h :: "byte list \<Rightarrow> nat \<Rightarrow> error + int" where
  "unpack_from_h data offset =
     (if length data < offset + 2 then Inl StructError
      else Inr (sint (word_cat (data ! offset) (data ! (offset + 1)) :: 16 word)))"

text \<open>\<open>PranaState.unpack\<close>: Python's \<open>&\<close> on integers is the two's-complement \<open>AND\<close> of \<open>int\<close>.\<close>

definition unpack :: "byte list \<Rightarrow> nat \<Rightarrow> error + int" where
  "unpack data key =
     (case unpack_from_h data key of
        Inl e \<Rightarrow> Inl e
      | Inr v \<Rightarrow> Inr (v AND 0x3FFF))"

text \<open>
  \<open>int(x / 10)\<close>: true division followed by truncation towards zero. For the integers
  that occur here (bytes) the floating-point quotient has the same integer part as the
  exact one, so the result is the truncated integer quotient.
\<close>

definition int_truediv10 :: "int \<Rightarrow> int" where
  "int_truediv10 x = (if 0 \<le> x then x div 10 else - ((- x) div 10))"

text \<open>
  \<open>int(log2(x) + 1)\<close>: \<open>math.log2\<close> raises \<open>ValueError\<close> on a non-positive argument. For a
  positive integer the integer part of \<open>log2 x + 1\<close> is \<open>floorlog 2 x\<close>, which is
  \<open>\<lfloor>log 2 x\<rfloor> + 1\<close> by definition; on bytes the floating-point logarithm has the same
  integer part as the real one.
\<close>

definition int_log2_plus1 :: "int \<Rightarrow> error + int" where
  "int_log2_plus1 x = (if x \<le> 0 then Inl ValueError else Inr (int (floorlog 2 (nat x))))"

text \<open>\<open>max(a, b)\<close> on two attributes that may still be \<open>None\<close>.\<close>

definition max_py :: "int option \<Rightarrow> int option \<Rightarrow> error + int" where
  "max_py a b =
     (case a of
        None \<Rightarrow> Inl TypeError
      | Some x \<Rightarrow> (case b of None \<Rightarrow> Inl TypeError | Some y \<Rightarrow> Inr (max x y)))"

record PranaState =
  power :: "bool option"
  speed :: "int option"
  power_in :: "bool option"
  speed_in :: "int option"
  power_out :: "bool option"
  speed_out :: "int option"
  mode :: "string option"
  brightness :: "int option"
  display :: "string option"
  flows_locked :: "bool option"
  mini_heating :: "bool option"
  winter_mode :: "bool option"
  temp_in :: "real option"
  temp_out :: "real option"
  temp_outside :: "real option"
  humidity :: "int option"
  pressure :: "int option"
  tvoc :: "int option"
  co2 :: "int option"

text \<open>The dataclass defaults: every field is \<open>None\<close>.\<close>

definition PranaState_init :: PranaState where
  "PranaState_init =
     \<lparr>power = None, speed = None, power_in = None, speed_in = None, power_out = None,
      speed_out = None, mode = None, brightness = None, display = None,
      flows_locked = None, mini_heating = None, winter_mode = None, temp_in = None,
      temp_out = None, temp_outside = None, humidity = None, pressure = None,
      tvoc = None, co2 = None\<rparr>"

text \<open>
  \<open>update\<close> assigns the fields of the object one statement after the other; a statement
  that raises leaves the fields assigned so far in place. A statement is a function
  from the object to the exception raised (if any) and the object afterwards.
\<close>

type_synonym stmt = "PranaState \<Rightarrow> error option \<times> PranaState"

definition raise :: "error \<Rightarrow> stmt" where
  "raise e s = (Some e, s)"

definition assign :: "(error + 'a) \<Rightarrow> ('a \<Rightarrow> PranaState \<Rightarrow> PranaState) \<Rightarrow> stmt" where
  "assign r f s = (case r of Inl e \<Rightarrow> (Some e, s) | Inr v \<Rightarrow> (None, f v s))"

fun run_stmts :: "stmt list \<Rightarrow> stmt" where
  "run_stmts [] s = (None, s)"
| "run_stmts (f # fs) s =
     (case f s of
        (Some e, s') \<Rightarrow> (Some e, s')
      | (None, s') \<Rightarrow> run_stmts fs s')"

text \<open>The \<open>if\<close>/\<open>elif\<close> chain of the mode, in the order of the source.\<close>

definition decode_mode :: "byte list \<Rightarrow> error + string option" where
  "decode_mode data =
     (case getitem data STATE_INDEX_AUTO_MODE of
        Inl e \<Rightarrow> Inl e
      | Inr a \<Rightarrow>
          if a = 1 then Inr (Some ''auto'')
          else if a = 2 then Inr (Some ''auto_plus'')
          else (case getitem data STATE_INDEX_BOOST_MODE of
                  Inl e \<Rightarrow> Inl e
                | Inr b \<Rightarrow>
                    if b = 1 then Inr (Some ''boost'')
                    else (case getitem data STATE_INDEX_NIGHT_MODE of
                            Inl e \<Rightarrow> Inl e
                          | Inr n \<Rightarrow> if n = 1 then Inr (Some ''night'') else Inr None)))"

definition decode_brightness :: "byte list \<Rightarrow> error + int" where
  "decode_brightness data =
     (case getitem data STATE_INDEX_BRIGHTNESS of
        Inl e \<Rightarrow> Inl e
      | Inr brightness_value \<Rightarrow>
          if brightness_value = 0 then Inr 0 else int_log2_plus1 brightness_value)"

text \<open>\<open>DISPLAY.get(data[STATE_INDEX_DISPLAY])\<close> and the name of the entry found, if any.\<close>

definition decode_display :: "byte list \<Rightarrow> error + string option" where
  "decode_display data =
     (case DISPLAY of
        Inl e \<Rightarrow> Inl e
      | Inr table \<Rightarrow>
          (case getitem data STATE_INDEX_DISPLAY of
             Inl e \<Rightarrow> Inl e
           | Inr code \<Rightarrow> Inr (map_option name (map_of table code))))"

definition update :: "PranaState \<Rightarrow> byte list \<Rightarrow> error option \<times> PranaState" where
  "update self data =
     (if take 2 data \<noteq> COMMAND_PREFIX then raise ValueError self
      else run_stmts [
        assign (getitem data STATE_INDEX_POWER) (\<lambda>v s. s\<lparr>power := Some (v \<noteq> 0)\<rparr>),
        assign (getitem data STATE_INDEX_POWER_IN) (\<lambda>v s. s\<lparr>power_in := Some (v \<noteq> 0)\<rparr>),
        assign (getitem data STATE_INDEX_POWER_OUT) (\<lambda>v s. s\<lparr>power_out := Some (v \<noteq> 0)\<rparr>),
        assign (getitem data STATE_INDEX_MINI_HEATING) (\<lambda>v s. s\<lparr>mini_heating := Some (v = 1)\<rparr>),
        assign (getitem data STATE_INDEX_WINTER_MODE) (\<lambda>v s. s\<lparr>winter_mode := Some (v = 1)\<rparr>),
        assign (decode_mode data) (\<lambda>v s. s\<lparr>mode := v\<rparr>),
        assign (getitem data STATE_INDEX_FLOWS_LOCKED) (\<lambda>v s. s\<lparr>flows_locked := Some (v \<noteq> 0)\<rparr>),
        assign (getitem data STATE_INDEX_SPEED_IN) (\<lambda>v s. s\<lparr>speed_in := Some (int_truediv10 v)\<rparr>),
        assign (getitem data STATE_INDEX_SPEED_OUT) (\<lambda>v s. s\<lparr>speed_out := Some (int_truediv10 v)\<rparr>),
        (\<lambda>s. if flows_locked s = Some True
              then assign (getitem data STATE_INDEX_SPEED)
                     (\<lambda>v s. s\<lparr>speed := Some (int_truediv10 v)\<rparr>) s
              else assign (max_py (speed_in s) (speed_out s)) (\<lambda>v s. s\<lparr>speed := Some v\<rparr>) s),
        assign (decode_brightness data) (\<lambda>v s. s\<lparr>brightness := Some v\<rparr>),
        assign (decode_display data) (\<lambda>v s. s\<lparr>display := v\<rparr>),
        assign (getitem data STATE_INDEX_HUMIDITY) (\<lambda>v s. s\<lparr>humidity := Some (v - 128)\<rparr>),
        assign (unpack data STATE_INDEX_PRESSURE) (\<lambda>v s. s\<lparr>pressure := Some v\<rparr>),
        assign (unpack data STATE_INDEX_TEMP_IN) (\<lambda>v s. s\<lparr>temp_in := Some (real_of_int v / 10)\<rparr>),
        assign (unpack data STATE_INDEX_TEMP_OUTSIDE)
          (\<lambda>v s. s\<lparr>temp_outside := Some (real_of_int v / 10)\<rparr>),
        assign (unpack data STATE_INDEX_TEMP_OUT) (\<lambda>v s. s\<lparr>temp_out := Some (real_of_int v / 10)\<rparr>),
        assign (unpack data STATE_INDEX_CO2) (\<lambda>v s. s\<lparr>co2 := Some v\<rparr>),
        assign (unpack data STATE_INDEX_TVOC) (\<lambda>v s. s\<lparr>tvoc := Some v\<rparr>)] self)"

text \<open>
  The wording of the specification for the 14-bit fields, on the two bytes as integers:
  the big-endian value, read as a signed 16-bit two's-complement number, then masked.
\<close>

definition be_int16 :: "int \<Rightarrow> int \<Rightarrow> int" where
  "be_int16 hi lo = (let u = 256 * hi + lo in if u < 32768 then u else u - 65536)"

definition masked14 :: "int \<Rightarrow> int \<Rightarrow> int" where
  "masked14 hi lo = be_int16 hi lo AND 0x3FFF"

section \<open>The coordinator (coordinator.py)\<close>

text \<open>
  A BLE client object is known by its identity only. A future is pending, holds a result,
  holds an exception, or was cancelled. The calls made on client objects are recorded in
  the order they are made. The awaited transport operations are not part of the program:
  what they return or raise is an argument of the model, and so is what the event loop
  runs while a request waits for them.
\<close>

type_synonym client = nat

datatype future =
    Pending
  | Result "byte list option"
  | Exception error
  | Cancelled

definition future_done :: "future \<Rightarrow> bool" where
  "future_done f = (f \<noteq> Pending)"

datatype transport_call =
    WriteGattChar client "byte list"
  | StopNotify client
  | Disconnect client


definition EXPECTED_STATE_BYTES :: nat where
  "EXPECTED_STATE_BYTES = 100"

record PranaCoordinator =
  ble_client :: "client option"
  notify_buffer :: "byte list"
  notify_future :: "future option"
  data :: PranaState
  calls :: "transport_call list"


definition ble_notification_handler :: "PranaCoordinator \<Rightarrow> byte list \<Rightarrow> PranaCoordinator" where
  "ble_notification_handler self chunk =
     (case notify_future self of
        None \<Rightarrow> self
      | Some future \<Rightarrow>
          if future_done future then self
          else if chunk = [] then self
          else if notify_buffer self = [] \<and> take 1 chunk \<noteq> take 1 COMMAND_PREFIX then self
          else
            let buffer = notify_buffer self @ chunk in
            if length COMMAND_PREFIX \<le> length buffer
               \<and> take (length COMMAND_PREFIX) buffer \<noteq> COMMAND_PREFIX
            then self\<lparr>notify_buffer := []\<rparr>
            else if EXPECTED_STATE_BYTES \<le> length buffer
            then (if \<not> future_done future
                  then self\<lparr>notify_future := Some (Result (Some buffer)), notify_buffer := []\<rparr>
                  else self\<lparr>notify_buffer := []\<rparr>)
            else self\<lparr>notify_buffer := buffer\<rparr>)"

text \<open>The notifications of a session, delivered one after the other.\<close>

definition feed :: "PranaCoordinator \<Rightarrow> byte list list \<Rightarrow> PranaCoordinator" where
  "feed self chunks = foldl ble_notification_handler self chunks"

subsection \<open>What runs while a request is suspended\<close>

















section \<open>Facts about the codec\<close>

lemmas STATE_INDEX_defs =
  STATE_INDEX_POWER_def STATE_INDEX_POWER_IN_def STATE_INDEX_POWER_OUT_def
  STATE_INDEX_BRIGHTNESS_def STATE_INDEX_MINI_HEATING_def STATE_INDEX_NIGHT_MODE_def
  STATE_INDEX_BOOST_MODE_def STATE_INDEX_AUTO_MODE_def STATE_INDEX_FLOWS_LOCKED_def
  STATE_INDEX_SPEED_def STATE_INDEX_SPEED_IN_def STATE_INDEX_SPEED_OUT_def
  STATE_INDEX_WINTER_MODE_def STATE_INDEX_TEMP_IN_def STATE_INDEX_TEMP_OUTSIDE_def
  STATE_INDEX_TEMP_OUT_def STATE_INDEX_HUMIDITY_def STATE_INDEX_CO2_def
  STATE_INDEX_TVOC_def STATE_INDEX_PRESSURE_def STATE_INDEX_DISPLAY_def

lemma uint_cat: "uint (word_cat (hi::8 word) (lo::8 word) :: 16 word) = 256 * uint hi + uint lo"
proof -
  have "uint (word_cat hi lo :: 16 word) = take_bit 16 (concat_bit 8 (uint lo) (uint hi))"
    by (simp add: word_cat_eq' uint_word_of_int take_bit_eq_mod)
  also have "concat_bit 8 (uint lo) (uint hi) = uint lo + 256 * uint hi"
  proof -
    have "uint lo < 256" "0 \<le> uint lo"
      using uint_lt2p [of lo] by simp_all
    then show ?thesis by (simp add: concat_bit_eq push_bit_eq_mult take_bit_eq_mod)
  qed
  also have "take_bit 16 (uint lo + 256 * uint hi) = uint lo + 256 * uint hi"
  proof -
    have "uint lo < 256" "uint hi < 256" "0 \<le> uint lo" "0 \<le> uint hi"
      using uint_lt2p [of lo] uint_lt2p [of hi] by simp_all
    then show ?thesis by (simp add: take_bit_eq_mod)
  qed
  finally show ?thesis by simp
qed

lemma sint_and_mask14: "sint (w :: 16 word) AND 0x3FFF = uint w mod 16384"
proof -
  have "sint w AND mask 14 = take_bit 14 (signed_take_bit 15 (uint w))"
    by (simp add: sint_uint take_bit_eq_mask)
  also have "\<dots> = take_bit 14 (uint w)"
    by (simp add: take_bit_signed_take_bit)
  finally show ?thesis by (simp add: take_bit_eq_mod mask_eq_exp_minus_1)
qed

lemma sint16_cases: "sint (w :: 16 word) = (if uint w < 32768 then uint w else uint w - 65536)"
proof -
  have b: "0 \<le> uint w" "uint w < 65536"
    using uint_lt2p [of w] by simp_all
  have s: "sint w = (uint w + 32768) mod 65536 - 32768"
    by (simp add: sint_uint signed_take_bit_eq_take_bit_shift take_bit_eq_mod)
  show ?thesis
  proof (cases "uint w < 32768")
    case True
    with b have "(uint w + 32768) mod 65536 = uint w + 32768"
      by (intro mod_pos_pos_trivial) simp_all
    with True s show ?thesis by simp
  next
    case False
    with b have "(uint w + 32768) mod 65536 = uint w + 32768 - 65536"
      by (intro int_mod_pos_eq [where q = 1]) simp_all
    with False s show ?thesis by simp
  qed
qed

lemma sint_cat_be_int16:
  "sint (word_cat (hi::8 word) (lo::8 word) :: 16 word) = be_int16 (uint hi) (uint lo)"
  by (simp add: sint16_cases uint_cat be_int16_def Let_def)

lemma sint_cat_mask:
  "sint (word_cat (hi::8 word) (lo::8 word) :: 16 word) AND 0x3FFF
     = (256 * uint hi + uint lo) mod 16384"
  by (simp only: sint_and_mask14 uint_cat)

lemma DISPLAY_eval: "DISPLAY = Inr [
  (0, \<lparr>payload = [0xBE, 0xEF, 0x04, 0x62], name = ''fan''\<rparr>),
  (1, \<lparr>payload = [0xBE, 0xEF, 0x04, 0x5B], name = ''temp_in''\<rparr>),
  (2, \<lparr>payload = [0xBE, 0xEF, 0x04, 0x5C], name = ''temp_out''\<rparr>),
  (3, \<lparr>payload = [0xBE, 0xEF, 0x04, 0x5D], name = ''co2''\<rparr>),
  (4, \<lparr>payload = [0xBE, 0xEF, 0x04, 0x5E], name = ''tvoc''\<rparr>),
  (5, \<lparr>payload = [0xBE, 0xEF, 0x04, 0x5F], name = ''humidity''\<rparr>),
  (6, \<lparr>payload = [0xBE, 0xEF, 0x04, 0x60], name = ''efficiency''\<rparr>),
  (7, \<lparr>payload = [0xBE, 0xEF, 0x04, 0x61], name = ''pressure''\<rparr>),
  (9, \<lparr>payload = [0xBE, 0xEF, 0x04, 0x63], name = ''date''\<rparr>),
  (10, \<lparr>payload = [0xBE, 0xEF, 0x04, 0x64], name = ''time''\<rparr>)]"
  by (simp add: DISPLAY_def PranaDisplayCommand_init_def PranaSetCommand_init_def
      PranaCommand_init_def bytes_of_ints_def SET_BYTE_def COMMAND_PREFIX_def)

lemma getitem_ok: "i < length frame \<Longrightarrow> getitem frame i = Inr (uint (frame ! i))"
  by (simp add: getitem_def)

lemma getitem_fail: "length frame \<le> i \<Longrightarrow> getitem frame i = Inl IndexError"
  by (simp add: getitem_def)

lemma unpack_ok:
  "key + 2 \<le> length frame \<Longrightarrow>
   unpack frame key = Inr ((256 * uint (frame ! key) + uint (frame ! (key + 1))) mod 16384)"
  by (simp add: unpack_def unpack_from_h_def sint_cat_mask)

lemma unpack_masked14:
  "key + 2 \<le> length frame \<Longrightarrow>
   unpack frame key = Inr (masked14 (uint (frame ! key)) (uint (frame ! (key + 1))))"
  by (simp add: unpack_def unpack_from_h_def sint_cat_be_int16 masked14_def)

lemma decode_mode_ok:
  "100 \<le> length frame \<Longrightarrow>
   decode_mode frame = Inr
     (if uint (frame ! 20) = 1 then Some ''auto''
      else if uint (frame ! 20) = 2 then Some ''auto_plus''
      else if uint (frame ! 18) = 1 then Some ''boost''
      else if uint (frame ! 16) = 1 then Some ''night'' else None)"
  by (simp add: decode_mode_def STATE_INDEX_defs getitem_ok)

lemma decode_brightness_ok:
  "100 \<le> length frame \<Longrightarrow>
   decode_brightness frame = Inr (int (floorlog 2 (unat (frame ! 12))))"
  by (simp add: decode_brightness_def STATE_INDEX_defs getitem_ok int_log2_plus1_def
      floorlog_eq_zero_iff uint_0_iff)

lemma decode_display_ok:
  "100 \<le> length frame \<Longrightarrow>
   decode_display frame = Inr (map_option name (map_of (projr DISPLAY) (uint (frame ! 99))))"
  by (simp add: decode_display_def STATE_INDEX_defs getitem_ok DISPLAY_eval)

text \<open>The object after decoding a frame of at least 100 bytes that starts with the prefix.\<close>

lemma update_valid:
  assumes "100 \<le> length frame" "take 2 frame = COMMAND_PREFIX"
  shows "update self frame = (None, self\<lparr>
      power := Some (uint (frame ! 10) \<noteq> 0),
      power_in := Some (uint (frame ! 28) \<noteq> 0),
      power_out := Some (uint (frame ! 32) \<noteq> 0),
      mini_heating := Some (uint (frame ! 14) = 1),
      winter_mode := Some (uint (frame ! 42) = 1),
      mode := (if uint (frame ! 20) = 1 then Some ''auto''
               else if uint (frame ! 20) = 2 then Some ''auto_plus''
               else if uint (frame ! 18) = 1 then Some ''boost''
               else if uint (frame ! 16) = 1 then Some ''night'' else None),
      flows_locked := Some (uint (frame ! 22) \<noteq> 0),
      speed_in := Some (uint (frame ! 30) div 10),
      speed_out := Some (uint (frame ! 34) div 10),
      speed := Some (if uint (frame ! 22) \<noteq> 0 then uint (frame ! 26) div 10
                     else max (uint (frame ! 30) div 10) (uint (frame ! 34) div 10)),
      brightness := Some (int (floorlog 2 (unat (frame ! 12)))),
      display := map_option name (map_of (projr DISPLAY) (uint (frame ! 99))),
      humidity := Some (uint (frame ! 60) - 128),
      pressure := Some ((256 * uint (frame ! 77) + uint (frame ! 78)) mod 16384),
      temp_in := Some (real_of_int ((256 * uint (frame ! 48) + uint (frame ! 49)) mod 16384) / 10),
      temp_outside :=
        Some (real_of_int ((256 * uint (frame ! 51) + uint (frame ! 52)) mod 16384) / 10),
      temp_out := Some (real_of_int ((256 * uint (frame ! 54) + uint (frame ! 55)) mod 16384) / 10),
      co2 := Some ((256 * uint (frame ! 61) + uint (frame ! 62)) mod 16384),
      tvoc := Some ((256 * uint (frame ! 63) + uint (frame ! 64)) mod 16384)\<rparr>)"
  using assms
  by (simp add: update_def STATE_INDEX_defs getitem_ok unpack_ok assign_def decode_mode_ok
      decode_brightness_ok decode_display_ok max_py_def int_truediv10_def
      del: map_option_eq_Some)


lemma update_bad_prefix:
  "take 2 buf \<noteq> COMMAND_PREFIX \<Longrightarrow> update self buf = (Some ValueError, self)"
  by (simp add: update_def raise_def)

text \<open>A buffer with the prefix but fewer than 100 bytes: some index read is out of range.\<close>

lemma update_short:
  assumes "take 2 buf = COMMAND_PREFIX" "length buf < 100"
  shows "fst (update self buf) = Some IndexError"
proof -
  consider "length buf \<le> 10" | "10 < length buf" "length buf \<le> 28"
    | "28 < length buf" "length buf \<le> 32" | "32 < length buf" "length buf \<le> 42"
    | "42 < length buf" "length buf \<le> 99"
    using assms(2) by linarith
  then show ?thesis
  proof cases
    case 1
    then show ?thesis using assms(1)
      by (simp add: update_def STATE_INDEX_defs getitem_fail assign_def)
  next
    case 2
    then show ?thesis using assms(1)
      by (simp add: update_def STATE_INDEX_defs getitem_fail getitem_ok assign_def)
  next
    case 3
    then show ?thesis using assms(1)
      by (simp add: update_def STATE_INDEX_defs getitem_fail getitem_ok assign_def)
  next
    case 4
    then show ?thesis using assms(1)
      by (simp add: update_def STATE_INDEX_defs getitem_fail getitem_ok assign_def)
  next
    case 5
    then have m: "decode_mode buf = Inr
     (if uint (buf ! 20) = 1 then Some ''auto''
      else if uint (buf ! 20) = 2 then Some ''auto_plus''
      else if uint (buf ! 18) = 1 then Some ''boost''
      else if uint (buf ! 16) = 1 then Some ''night'' else None)"
      by (simp add: decode_mode_def STATE_INDEX_defs getitem_ok)
    from 5 have b: "decode_brightness buf = Inr (int (floorlog 2 (unat (buf ! 12))))"
      by (simp add: decode_brightness_def STATE_INDEX_defs getitem_ok int_log2_plus1_def
      floorlog_eq_zero_iff uint_0_iff)
    from 5 have d: "decode_display buf = Inl IndexError"
      by (simp add: decode_display_def STATE_INDEX_defs getitem_fail DISPLAY_eval)
    from 5 show ?thesis using assms(1)
      by (simp add: update_def STATE_INDEX_defs getitem_ok assign_def m b d max_py_def)
  qed
qed

lemma masked14_mod:
  "masked14 (uint (hi::byte)) (uint (lo::byte)) = (256 * uint hi + uint lo) mod 16384"
  using sint_cat_mask [of hi lo] by (simp add: masked14_def sint_cat_be_int16)

lemma floorlog2_real:
  "0 < n \<Longrightarrow> int (floorlog 2 n) = \<lfloor>log 2 (real n)\<rfloor> + 1"
proof -
  assume n: "0 < n"
  then have "0 \<le> log 2 (real n)" by simp
  then have "0 \<le> \<lfloor>log 2 (real n)\<rfloor>" by simp
  with n show ?thesis by (simp add: floorlog_def)
qed

lemma floorlog2_power: "floorlog 2 (2 ^ k) = k + 1"
  using floorlog_power [of 1 2 k] by (simp add: floorlog_def)

lemma unat_byte_power: "k \<le> 7 \<Longrightarrow> unat (2 ^ k :: byte) = 2 ^ k"
proof -
  assume "k \<le> 7"
  then have "(2 ^ k :: byte) \<noteq> 0" by simp
  then have "(0 :: byte) < 2 ^ k" by (simp add: word_gt_0)
  then have "uint (2 ^ k :: byte) = 2 ^ k" by (rule uint_2p)
  then have "nat (uint (2 ^ k :: byte)) = nat (2 ^ k)" by simp
  then show ?thesis by (simp add: nat_power_eq)
qed

lemma unpack_range:
  "unpack buf key = Inr v \<Longrightarrow> 0 \<le> v \<and> v \<le> 16383"
proof -
  assume a: "unpack buf key = Inr v"
  then have k: "key + 2 \<le> length buf"
    by (auto simp: unpack_def unpack_from_h_def split: if_splits)
  from unpack_ok [OF k] a
  have "v = (256 * uint (buf ! key) + uint (buf ! (key + 1))) mod 16384" by simp
  then show ?thesis by simp
qed

lemma update_valid_unpacked:
  assumes "100 \<le> length frame" and "take 2 frame = COMMAND_PREFIX"
  shows "\<exists>s. update self frame = (None, s)
     \<and> pressure s = Some ((256 * uint (frame ! 77) + uint (frame ! 78)) mod 16384)
     \<and> co2 s = Some ((256 * uint (frame ! 61) + uint (frame ! 62)) mod 16384)
     \<and> tvoc s = Some ((256 * uint (frame ! 63) + uint (frame ! 64)) mod 16384)
     \<and> temp_in s
          = Some (real_of_int ((256 * uint (frame ! 48) + uint (frame ! 49)) mod 16384) / 10)
     \<and> temp_out s
          = Some (real_of_int ((256 * uint (frame ! 54) + uint (frame ! 55)) mod 16384) / 10)
     \<and> temp_outside s
          = Some (real_of_int ((256 * uint (frame ! 51) + uint (frame ! 52)) mod 16384) / 10)"
  by (simp add: update_valid [OF assms])

section \<open>Claims about the codec\<close>

text \<open>
  Claim C1, as the code has it. Decoding raises \<open>ValueError\<close> (the malformed-frame error)
  exactly when the first two bytes of the buffer are not the prefix \<open>0xBE 0xEF\<close>, and then
  the object is left untouched. A buffer that starts with the prefix but is shorter than 100
  bytes does not raise \<open>ValueError\<close>: an index read is out of range and \<open>IndexError\<close> is
  raised. A buffer of at least 100 bytes that starts with the prefix is decoded without any
  exception.
\<close>

theorem C1_decode_failure_kinds:
  "(fst (update self buf) = Some ValueError \<longleftrightarrow> take 2 buf \<noteq> COMMAND_PREFIX)
   \<and> (take 2 buf \<noteq> COMMAND_PREFIX \<longrightarrow> update self buf = (Some ValueError, self))
   \<and> (take 2 buf = COMMAND_PREFIX \<and> length buf < 100
        \<longrightarrow> fst (update self buf) = Some IndexError)
   \<and> (take 2 buf = COMMAND_PREFIX \<and> 100 \<le> length buf \<longrightarrow> fst (update self buf) = None)"
proof -
  have a: "fst (update self buf) = None" if "take 2 buf = COMMAND_PREFIX" "100 \<le> length buf"
    using update_valid [OF that(2) that(1), of self] by simp
  have b: "fst (update self buf) = Some IndexError"
    if "take 2 buf = COMMAND_PREFIX" "length buf < 100"
    using update_short [OF that] .
  have c: "update self buf = (Some ValueError, self)" if "take 2 buf \<noteq> COMMAND_PREFIX"
    using update_bad_prefix [OF that] .
  have d: "fst (update self buf) \<noteq> Some ValueError" if p: "take 2 buf = COMMAND_PREFIX"
  proof (cases "length buf < 100")
    case True
    then show ?thesis using b [OF p] by simp
  next
    case False
    then show ?thesis using a [OF p] by simp
  qed
  show ?thesis using a b c d by auto
qed

text \<open>
  The three cases of C1 at concrete buffers: the prefix followed by ten zero bytes, a
  100-byte buffer with the two prefix bytes swapped, and a 100-byte frame with the prefix.
\<close>

theorem C1_decode_failure_kinds_witness:
  "take 2 (COMMAND_PREFIX @ replicate 10 0) = COMMAND_PREFIX
   \<and> length (COMMAND_PREFIX @ replicate 10 0) < 100
   \<and> fst (update PranaState_init (COMMAND_PREFIX @ replicate 10 0)) = Some IndexError
   \<and> take 2 ([0xEF, 0xBE] @ replicate 98 0) \<noteq> COMMAND_PREFIX
   \<and> update PranaState_init ([0xEF, 0xBE] @ replicate 98 0) = (Some ValueError, PranaState_init)
   \<and> take 2 (COMMAND_PREFIX @ replicate 98 0) = COMMAND_PREFIX
   \<and> 100 \<le> length (COMMAND_PREFIX @ replicate 98 0)
   \<and> fst (update PranaState_init (COMMAND_PREFIX @ replicate 98 0)) = None"
proof -
  have h1: "take 2 (COMMAND_PREFIX @ replicate 10 0) = COMMAND_PREFIX"
    and h2: "length (COMMAND_PREFIX @ replicate 10 0) < 100"
    and h3: "take 2 ([0xEF, 0xBE] @ replicate 98 0) \<noteq> COMMAND_PREFIX"
    and h4: "take 2 (COMMAND_PREFIX @ replicate 98 0) = COMMAND_PREFIX"
    and h5: "100 \<le> length (COMMAND_PREFIX @ replicate 98 0)"
    by (simp_all add: COMMAND_PREFIX_def)
  from h1 h2 C1_decode_failure_kinds [of PranaState_init "COMMAND_PREFIX @ replicate 10 0"]
  have c1: "fst (update PranaState_init (COMMAND_PREFIX @ replicate 10 0)) = Some IndexError"
    by blast
  from h3 C1_decode_failure_kinds [of PranaState_init "[0xEF, 0xBE] @ replicate 98 0"]
  have c2: "update PranaState_init ([0xEF, 0xBE] @ replicate 98 0)
              = (Some ValueError, PranaState_init)"
    by blast
  from h4 h5 C1_decode_failure_kinds [of PranaState_init "COMMAND_PREFIX @ replicate 98 0"]
  have c3: "fst (update PranaState_init (COMMAND_PREFIX @ replicate 98 0)) = None"
    by blast
  from h1 h2 h3 h4 h5 c1 c2 c3 show ?thesis by blast
qed

text \<open>
  Claim C1 as stated fails: the two-byte buffer \<open>0xBE 0xEF\<close> is shorter than 100 bytes, and
  decoding it raises \<open>IndexError\<close>, not \<open>ValueError\<close>.
\<close>

theorem C1_short_frame_counterexample:
  "length [0xBE, 0xEF :: byte] < 100
   \<and> fst (update PranaState_init [0xBE, 0xEF]) = Some IndexError
   \<and> fst (update PranaState_init [0xBE, 0xEF]) \<noteq> Some ValueError"
  by (simp add: update_def COMMAND_PREFIX_def STATE_INDEX_defs getitem_def assign_def)

text \<open>
  Claim C2. For a frame of at least 100 bytes that starts with the prefix, decoding
  succeeds; \<open>speed_in\<close> is the byte at offset 30 divided by 10 and \<open>speed_out\<close> the byte
  at offset 34 divided by 10 (integer part), whatever the lock flag is; \<open>speed\<close> is the
  maximum of the two when the flows are not locked and the byte at offset 26 divided by
  10 when they are. In particular unlocked flows with \<open>speed_in = 3\<close> and
  \<open>speed_out = 5\<close> give \<open>speed = 5\<close>.
\<close>

theorem C2_speed_lock_invariant:
  assumes "100 \<le> length frame" and "take 2 frame = COMMAND_PREFIX"
  shows "\<exists>s. update self frame = (None, s)
     \<and> speed_in s = Some (uint (frame ! STATE_INDEX_SPEED_IN) div 10)
     \<and> speed_out s = Some (uint (frame ! STATE_INDEX_SPEED_OUT) div 10)
     \<and> flows_locked s = Some (uint (frame ! STATE_INDEX_FLOWS_LOCKED) \<noteq> 0)
     \<and> (flows_locked s = Some False \<longrightarrow>
            speed s = Some (max (uint (frame ! STATE_INDEX_SPEED_IN) div 10)
                                (uint (frame ! STATE_INDEX_SPEED_OUT) div 10)))
     \<and> (flows_locked s = Some True \<longrightarrow>
            speed s = Some (uint (frame ! STATE_INDEX_SPEED) div 10))
     \<and> (flows_locked s = Some False \<and> speed_in s = Some 3 \<and> speed_out s = Some 5
            \<longrightarrow> speed s = Some 5)"
  by (simp add: update_valid [OF assms] STATE_INDEX_defs)

text \<open>
  C2 at a concrete frame: bytes 30 and 50 at the offsets 30 and 34, the lock byte 0.
\<close>

theorem C2_speed_lock_invariant_witness:
  "100 \<le> length (COMMAND_PREFIX @ (replicate 98 0)[28 := 30, 32 := 50])
   \<and> take 2 (COMMAND_PREFIX @ (replicate 98 0)[28 := 30, 32 := 50]) = COMMAND_PREFIX
   \<and> (\<exists>s. update PranaState_init (COMMAND_PREFIX @ (replicate 98 0)[28 := 30, 32 := 50])
              = (None, s)
          \<and> flows_locked s = Some False \<and> speed_in s = Some 3 \<and> speed_out s = Some 5
          \<and> speed s = Some 5)"
proof -
  let ?f = "COMMAND_PREFIX @ (replicate 98 0)[28 := 30, 32 := 50]"
  have h1: "100 \<le> length ?f" and h2: "take 2 ?f = COMMAND_PREFIX"
    by (simp_all add: COMMAND_PREFIX_def)
  have v: "uint (?f ! STATE_INDEX_SPEED_IN) = 30" "uint (?f ! STATE_INDEX_SPEED_OUT) = 50"
    "uint (?f ! STATE_INDEX_FLOWS_LOCKED) = 0"
    by (simp_all add: COMMAND_PREFIX_def STATE_INDEX_defs nth_append nth_list_update)
  from C2_speed_lock_invariant [OF h1 h2, of PranaState_init] v h1 h2
  show ?thesis by auto
qed

text \<open>
  Claim C3. For a valid frame and each of the offsets of \<open>temp_in\<close>, \<open>temp_out\<close>,
  \<open>temp_outside\<close>, \<open>pressure\<close>, \<open>co2\<close> and \<open>tvoc\<close>, \<open>unpack\<close> is the big-endian signed
  16-bit reading of the two bytes at the offset, masked with \<open>0x3FFF\<close> after the sign
  extension. The temperatures are this value divided by 10, the other three fields are
  the value itself. The bytes \<open>0x00 0xC8\<close> at the offset of \<open>temp_in\<close> decode to 20.0; the
  bytes \<open>0xFF 0x38\<close> (the 16-bit number -200) decode to 1618.4, the sign being cut off.
\<close>

theorem C3_unpack_signed_then_masked:
  assumes "100 \<le> length frame" and "take 2 frame = COMMAND_PREFIX"
  shows "\<exists>s. update self frame = (None, s)
     \<and> (\<forall>key \<in> {STATE_INDEX_TEMP_IN, STATE_INDEX_TEMP_OUT, STATE_INDEX_TEMP_OUTSIDE,
                  STATE_INDEX_PRESSURE, STATE_INDEX_CO2, STATE_INDEX_TVOC}.
           unpack frame key = Inr (masked14 (uint (frame ! key)) (uint (frame ! (key + 1)))))
     \<and> temp_in s = Some (real_of_int (masked14 (uint (frame ! STATE_INDEX_TEMP_IN))
                           (uint (frame ! (STATE_INDEX_TEMP_IN + 1)))) / 10)
     \<and> temp_out s = Some (real_of_int (masked14 (uint (frame ! STATE_INDEX_TEMP_OUT))
                           (uint (frame ! (STATE_INDEX_TEMP_OUT + 1)))) / 10)
     \<and> temp_outside s = Some (real_of_int (masked14 (uint (frame ! STATE_INDEX_TEMP_OUTSIDE))
                           (uint (frame ! (STATE_INDEX_TEMP_OUTSIDE + 1)))) / 10)
     \<and> pressure s = Some (masked14 (uint (frame ! STATE_INDEX_PRESSURE))
                           (uint (frame ! (STATE_INDEX_PRESSURE + 1))))
     \<and> co2 s = Some (masked14 (uint (frame ! STATE_INDEX_CO2))
                           (uint (frame ! (STATE_INDEX_CO2 + 1))))
     \<and> tvoc s = Some (masked14 (uint (frame ! STATE_INDEX_TVOC))
                           (uint (frame ! (STATE_INDEX_TVOC + 1))))
     \<and> (frame ! STATE_INDEX_TEMP_IN = 0x00 \<and> frame ! (STATE_INDEX_TEMP_IN + 1) = 0xC8
          \<longrightarrow> temp_in s = Some 20)
     \<and> (frame ! STATE_INDEX_TEMP_IN = 0xFF \<and> frame ! (STATE_INDEX_TEMP_IN + 1) = 0x38
          \<longrightarrow> be_int16 (uint (frame ! STATE_INDEX_TEMP_IN))
                 (uint (frame ! (STATE_INDEX_TEMP_IN + 1))) = - 200
              \<and> temp_in s = Some (16184 / 10))"
proof -
  have u: "\<forall>key \<in> {STATE_INDEX_TEMP_IN, STATE_INDEX_TEMP_OUT, STATE_INDEX_TEMP_OUTSIDE,
                  STATE_INDEX_PRESSURE, STATE_INDEX_CO2, STATE_INDEX_TVOC}.
           unpack frame key = Inr (masked14 (uint (frame ! key)) (uint (frame ! (key + 1))))"
    using assms(1) by (simp add: STATE_INDEX_defs unpack_masked14)
  show ?thesis
    using u by (simp add: update_valid [OF assms] STATE_INDEX_defs masked14_mod be_int16_def)
qed

text \<open>C3 at a concrete frame with the bytes \<open>0x00 0xC8\<close> at the offsets 48 and 49.\<close>

theorem C3_unpack_signed_then_masked_witness:
  "100 \<le> length (COMMAND_PREFIX @ (replicate 98 0)[47 := 0xC8])
   \<and> take 2 (COMMAND_PREFIX @ (replicate 98 0)[47 := 0xC8]) = COMMAND_PREFIX
   \<and> (COMMAND_PREFIX @ (replicate 98 0)[47 := 0xC8]) ! STATE_INDEX_TEMP_IN = 0x00
   \<and> (COMMAND_PREFIX @ (replicate 98 0)[47 := 0xC8]) ! (STATE_INDEX_TEMP_IN + 1) = 0xC8
   \<and> STATE_INDEX_TEMP_IN \<in> {STATE_INDEX_TEMP_IN, STATE_INDEX_TEMP_OUT,
         STATE_INDEX_TEMP_OUTSIDE, STATE_INDEX_PRESSURE, STATE_INDEX_CO2, STATE_INDEX_TVOC}
   \<and> unpack (COMMAND_PREFIX @ (replicate 98 0)[47 := 0xC8]) STATE_INDEX_TEMP_IN = Inr 200
   \<and> (\<exists>s. update PranaState_init (COMMAND_PREFIX @ (replicate 98 0)[47 := 0xC8]) = (None, s)
          \<and> temp_in s = Some 20)"
proof -
  let ?f = "COMMAND_PREFIX @ (replicate 98 0)[47 := 0xC8]"
  have h1: "100 \<le> length ?f" and h2: "take 2 ?f = COMMAND_PREFIX"
    by (simp_all add: COMMAND_PREFIX_def)
  have v: "?f ! STATE_INDEX_TEMP_IN = 0x00" "?f ! (STATE_INDEX_TEMP_IN + 1) = 0xC8"
    by (simp_all add: COMMAND_PREFIX_def STATE_INDEX_defs nth_append nth_list_update)
  have m: "masked14 (uint (0x00 :: byte)) (uint (0xC8 :: byte)) = 200"
    by (simp add: masked14_def be_int16_def)
  from C3_unpack_signed_then_masked [OF h1 h2, of PranaState_init] v m h1 h2
  show ?thesis by auto
qed

text \<open>
  Claim C4. For a valid frame the decoded brightness is 0 when the raw byte at offset 12
  is 0 and \<open>\<lfloor>log\<^sub>2 raw\<rfloor> + 1\<close> otherwise; a raw byte \<open>2 ^ k\<close> with \<open>k \<le> 6\<close> gives \<open>k + 1\<close>,
  so the raw byte \<open>0x08\<close> gives 4.
\<close>

theorem C4_brightness_from_raw:
  assumes "100 \<le> length frame" and "take 2 frame = COMMAND_PREFIX"
  shows "\<exists>s. update self frame = (None, s)
     \<and> (frame ! STATE_INDEX_BRIGHTNESS = 0 \<longrightarrow> brightness s = Some 0)
     \<and> (frame ! STATE_INDEX_BRIGHTNESS \<noteq> 0 \<longrightarrow>
           brightness s = Some (\<lfloor>log 2 (real (unat (frame ! STATE_INDEX_BRIGHTNESS)))\<rfloor> + 1))
     \<and> (\<forall>k\<le>6. frame ! STATE_INDEX_BRIGHTNESS = 2 ^ k \<longrightarrow> brightness s = Some (int k + 1))
     \<and> (frame ! STATE_INDEX_BRIGHTNESS = 0x08 \<longrightarrow> brightness s = Some 4)"
proof -
  let ?raw = "frame ! 12"
  have z: "?raw = 0 \<Longrightarrow> int (floorlog 2 (unat ?raw)) = 0"
    by (simp add: floorlog_def)
  have nz: "?raw \<noteq> 0 \<Longrightarrow> int (floorlog 2 (unat ?raw)) = \<lfloor>log 2 (real (unat ?raw))\<rfloor> + 1"
    by (rule floorlog2_real) (simp add: unat_gt_0)
  have p: "int (floorlog 2 (unat ?raw)) = int k + 1" if "k \<le> 6" "?raw = 2 ^ k" for k
    using that by (simp add: unat_byte_power floorlog2_power)
  have e: "int (floorlog 2 (unat ?raw)) = 4" if "?raw = 0x08"
    using p [of 3] that by simp
  show ?thesis
    using z nz p e by (simp add: update_valid [OF assms] STATE_INDEX_defs)
qed

text \<open>C4 at two concrete frames: raw brightness \<open>0x08 = 2 ^ 3\<close>, and raw brightness 0.\<close>

theorem C4_brightness_from_raw_witness:
  "100 \<le> length (COMMAND_PREFIX @ (replicate 98 0)[10 := 0x08])
   \<and> take 2 (COMMAND_PREFIX @ (replicate 98 0)[10 := 0x08]) = COMMAND_PREFIX
   \<and> (COMMAND_PREFIX @ (replicate 98 0)[10 := 0x08]) ! STATE_INDEX_BRIGHTNESS = 2 ^ 3
   \<and> (3::nat) \<le> 6
   \<and> (\<exists>s. update PranaState_init (COMMAND_PREFIX @ (replicate 98 0)[10 := 0x08]) = (None, s)
          \<and> brightness s = Some 4)
   \<and> (COMMAND_PREFIX @ replicate 98 0) ! STATE_INDEX_BRIGHTNESS = 0
   \<and> (\<exists>s. update PranaState_init (COMMAND_PREFIX @ replicate 98 0) = (None, s)
          \<and> brightness s = Some 0)"
proof -
  let ?f = "COMMAND_PREFIX @ (replicate 98 0)[10 := 0x08]"
  let ?g = "COMMAND_PREFIX @ replicate 98 0"
  have h1: "100 \<le> length ?f" and h2: "take 2 ?f = COMMAND_PREFIX"
    and g1: "100 \<le> length ?g" and g2: "take 2 ?g = COMMAND_PREFIX"
    by (simp_all add: COMMAND_PREFIX_def)
  have v: "?f ! STATE_INDEX_BRIGHTNESS = 2 ^ 3" "?f ! STATE_INDEX_BRIGHTNESS = 0x08"
    "?g ! STATE_INDEX_BRIGHTNESS = 0"
    by (simp_all add: COMMAND_PREFIX_def STATE_INDEX_defs nth_append nth_list_update)
  from C4_brightness_from_raw [OF h1 h2, of PranaState_init] v(2)
  have a: "\<exists>s. update PranaState_init ?f = (None, s) \<and> brightness s = Some 4"
    by blast
  from C4_brightness_from_raw [OF g1 g2, of PranaState_init] v(3)
  have b: "\<exists>s. update PranaState_init ?g = (None, s) \<and> brightness s = Some 0"
    by blast
  from a b v h1 h2 show ?thesis by simp
qed

text \<open>
  Claim C5. For a valid frame the mode follows the fixed priority: auto-mode byte 1 gives
  \<open>auto\<close>; else auto-mode byte 2 gives \<open>auto_plus\<close>; else boost-mode byte 1 gives \<open>boost\<close>;
  else night-mode byte 1 gives \<open>night\<close>; else the mode is \<open>None\<close>. The later bytes are not
  looked at once an earlier one has decided.
\<close>

theorem C5_mode_priority:
  assumes "100 \<le> length frame" and "take 2 frame = COMMAND_PREFIX"
  shows "\<exists>s. update self frame = (None, s)
     \<and> (uint (frame ! STATE_INDEX_AUTO_MODE) = 1 \<longrightarrow> mode s = Some ''auto'')
     \<and> (uint (frame ! STATE_INDEX_AUTO_MODE) = 2 \<longrightarrow> mode s = Some ''auto_plus'')
     \<and> (uint (frame ! STATE_INDEX_AUTO_MODE) \<notin> {1, 2}
          \<and> uint (frame ! STATE_INDEX_BOOST_MODE) = 1 \<longrightarrow> mode s = Some ''boost'')
     \<and> (uint (frame ! STATE_INDEX_AUTO_MODE) \<notin> {1, 2}
          \<and> uint (frame ! STATE_INDEX_BOOST_MODE) \<noteq> 1
          \<and> uint (frame ! STATE_INDEX_NIGHT_MODE) = 1 \<longrightarrow> mode s = Some ''night'')
     \<and> (uint (frame ! STATE_INDEX_AUTO_MODE) \<notin> {1, 2}
          \<and> uint (frame ! STATE_INDEX_BOOST_MODE) \<noteq> 1
          \<and> uint (frame ! STATE_INDEX_NIGHT_MODE) \<noteq> 1 \<longrightarrow> mode s = None)"
  by (simp add: update_valid [OF assms] STATE_INDEX_defs)

text \<open>
  C5 at two concrete frames: auto, boost and night bytes all 1 give \<open>auto\<close>; the night
  byte alone gives \<open>night\<close>.
\<close>

theorem C5_mode_priority_witness:
  "100 \<le> length (COMMAND_PREFIX @ (replicate 98 0)[14 := 1, 16 := 1, 18 := 1])
   \<and> take 2 (COMMAND_PREFIX @ (replicate 98 0)[14 := 1, 16 := 1, 18 := 1]) = COMMAND_PREFIX
   \<and> uint ((COMMAND_PREFIX @ (replicate 98 0)[14 := 1, 16 := 1, 18 := 1])
              ! STATE_INDEX_AUTO_MODE) = 1
   \<and> (\<exists>s. update PranaState_init (COMMAND_PREFIX @ (replicate 98 0)[14 := 1, 16 := 1, 18 := 1])
              = (None, s) \<and> mode s = Some ''auto'')
   \<and> 100 \<le> length (COMMAND_PREFIX @ (replicate 98 0)[14 := 1])
   \<and> take 2 (COMMAND_PREFIX @ (replicate 98 0)[14 := 1]) = COMMAND_PREFIX
   \<and> uint ((COMMAND_PREFIX @ (replicate 98 0)[14 := 1]) ! STATE_INDEX_AUTO_MODE) \<notin> {1, 2}
   \<and> uint ((COMMAND_PREFIX @ (replicate 98 0)[14 := 1]) ! STATE_INDEX_BOOST_MODE) \<noteq> 1
   \<and> uint ((COMMAND_PREFIX @ (replicate 98 0)[14 := 1]) ! STATE_INDEX_NIGHT_MODE) = 1
   \<and> (\<exists>s. update PranaState_init (COMMAND_PREFIX @ (replicate 98 0)[14 := 1]) = (None, s)
          \<and> mode s = Some ''night'')"
proof -
  let ?f = "COMMAND_PREFIX @ (replicate 98 0)[14 := 1, 16 := 1, 18 := 1]"
  let ?g = "COMMAND_PREFIX @ (replicate 98 0)[14 := 1]"
  have h1: "100 \<le> length ?f" and h2: "take 2 ?f = COMMAND_PREFIX"
    and g1: "100 \<le> length ?g" and g2: "take 2 ?g = COMMAND_PREFIX"
    by (simp_all add: COMMAND_PREFIX_def)
  have v: "uint (?f ! STATE_INDEX_AUTO_MODE) = 1"
    and w: "uint (?g ! STATE_INDEX_AUTO_MODE) \<notin> {1, 2}"
      "uint (?g ! STATE_INDEX_BOOST_MODE) \<noteq> 1" "uint (?g ! STATE_INDEX_NIGHT_MODE) = 1"
    by (simp_all add: COMMAND_PREFIX_def STATE_INDEX_defs nth_append nth_list_update)
  from C5_mode_priority [OF h1 h2, of PranaState_init] v
  have a: "\<exists>s. update PranaState_init ?f = (None, s) \<and> mode s = Some ''auto''"
    by blast
  from C5_mode_priority [OF g1 g2, of PranaState_init] w
  have b: "\<exists>s. update PranaState_init ?g = (None, s) \<and> mode s = Some ''night''"
    by blast
  from a b v w h1 h2 g1 g2 show ?thesis by blast
qed

text \<open>
  Claim C10. Whatever the buffer and the offset, a value returned by \<open>unpack\<close> lies in
  \<open>0..16383\<close>, and \<open>unpack\<close> does return a value when two bytes are left at the offset.
  Hence a decoded frame never has a negative \<open>pressure\<close>, \<open>co2\<close>, \<open>tvoc\<close>, \<open>temp_in\<close>,
  \<open>temp_out\<close> or \<open>temp_outside\<close>.
\<close>

theorem C10_unpack_never_negative:
  "(unpack buf key = Inr v \<longrightarrow> 0 \<le> v \<and> v \<le> 16383)
   \<and> (key + 2 \<le> length buf \<longrightarrow> (\<exists>v. unpack buf key = Inr v))
   \<and> (100 \<le> length frame \<and> take 2 frame = COMMAND_PREFIX \<longrightarrow>
        (\<exists>s. update self frame = (None, s)
           \<and> (\<exists>p. pressure s = Some p \<and> 0 \<le> p)
           \<and> (\<exists>c. co2 s = Some c \<and> 0 \<le> c)
           \<and> (\<exists>t. tvoc s = Some t \<and> 0 \<le> t)
           \<and> (\<exists>a. temp_in s = Some a \<and> 0 \<le> a)
           \<and> (\<exists>b. temp_out s = Some b \<and> 0 \<le> b)
           \<and> (\<exists>d. temp_outside s = Some d \<and> 0 \<le> d)))"
proof -
  have 1: "unpack buf key = Inr v \<longrightarrow> 0 \<le> v \<and> v \<le> 16383"
    using unpack_range by blast
  have 2: "key + 2 \<le> length buf \<longrightarrow> (\<exists>v. unpack buf key = Inr v)"
    by (simp add: unpack_ok)
  have 3: "\<exists>s. update self frame = (None, s)
           \<and> (\<exists>p. pressure s = Some p \<and> 0 \<le> p)
           \<and> (\<exists>c. co2 s = Some c \<and> 0 \<le> c)
           \<and> (\<exists>t. tvoc s = Some t \<and> 0 \<le> t)
           \<and> (\<exists>a. temp_in s = Some a \<and> 0 \<le> a)
           \<and> (\<exists>b. temp_out s = Some b \<and> 0 \<le> b)
           \<and> (\<exists>d. temp_outside s = Some d \<and> 0 \<le> d)"
    if "100 \<le> length frame" "take 2 frame = COMMAND_PREFIX"
  proof -
    from update_valid_unpacked [OF that, of self] obtain s where
      s: "update self frame = (None, s)"
      and f: "pressure s = Some ((256 * uint (frame ! 77) + uint (frame ! 78)) mod 16384)"
        "co2 s = Some ((256 * uint (frame ! 61) + uint (frame ! 62)) mod 16384)"
        "tvoc s = Some ((256 * uint (frame ! 63) + uint (frame ! 64)) mod 16384)"
      and t: "temp_in s
          = Some (real_of_int ((256 * uint (frame ! 48) + uint (frame ! 49)) mod 16384) / 10)"
        "temp_out s
          = Some (real_of_int ((256 * uint (frame ! 54) + uint (frame ! 55)) mod 16384) / 10)"
        "temp_outside s
          = Some (real_of_int ((256 * uint (frame ! 51) + uint (frame ! 52)) mod 16384) / 10)"
      by blast
    have n: "0 \<le> real_of_int (x mod 16384) / 10" for x
      by simp
    from f have "\<exists>p. pressure s = Some p \<and> 0 \<le> p" "\<exists>c. co2 s = Some c \<and> 0 \<le> c"
      "\<exists>t. tvoc s = Some t \<and> 0 \<le> t"
      by simp_all
    moreover from t n have "\<exists>a. temp_in s = Some a \<and> 0 \<le> a"
      "\<exists>b. temp_out s = Some b \<and> 0 \<le> b" "\<exists>d. temp_outside s = Some d \<and> 0 \<le> d"
      by blast+
    ultimately show ?thesis using s by blast
  qed
  from 1 2 3 show ?thesis by blast
qed

text \<open>
  C10 at the bytes \<open>0xFF 0x38\<close>, the 16-bit number -200: \<open>unpack\<close> returns 16184, and a
  frame with these bytes at the offset of \<open>temp_in\<close> decodes to a non-negative temperature.
\<close>

theorem C10_unpack_never_negative_witness:
  "unpack [0xFF, 0x38] 0 = Inr 16184
   \<and> (0::int) \<le> 16184 \<and> (16184::int) \<le> 16383
   \<and> 0 + 2 \<le> length [0xFF, 0x38 :: byte]
   \<and> 100 \<le> length (COMMAND_PREFIX @ (replicate 98 0)[46 := 0xFF, 47 := 0x38])
   \<and> take 2 (COMMAND_PREFIX @ (replicate 98 0)[46 := 0xFF, 47 := 0x38]) = COMMAND_PREFIX
   \<and> (\<exists>s a. update PranaState_init (COMMAND_PREFIX @ (replicate 98 0)[46 := 0xFF, 47 := 0x38])
                = (None, s) \<and> temp_in s = Some a \<and> 0 \<le> a)"
proof -
  let ?f = "COMMAND_PREFIX @ (replicate 98 0)[46 := 0xFF, 47 := 0x38]"
  have u: "unpack [0xFF, 0x38] 0 = Inr 16184"
    by (simp add: unpack_ok)
  have h1: "100 \<le> length ?f" and h2: "take 2 ?f = COMMAND_PREFIX"
    by (simp_all add: COMMAND_PREFIX_def)
  from C10_unpack_never_negative [of "[0xFF, 0x38]" 0 16184 ?f PranaState_init] u h1 h2
  show ?thesis by auto
qed

section \<open>Facts about the command tables\<close>

lemma dict_of_ok:
  "dict_of (map (\<lambda>k. (k, Inr (g k))) ks) = Inr (map (\<lambda>k. (k, g k)) ks)"
  by (induction ks) simp_all

lemma dict_comp_ok:
  assumes "\<forall>k \<in> set ks. f k = Inr (g k)"
  shows "dict_comp f ks = Inr (map (\<lambda>k. (k, g k)) ks)"
proof -
  from assms have h: "map (\<lambda>k. (k, f k)) ks = map (\<lambda>k. (k, Inr (g k))) ks"
    by simp
  show ?thesis unfolding dict_comp_def h by (rule dict_of_ok)
qed

lemma map_of_graph:
  "map_of (map (\<lambda>k. (k, g k)) ks) L = (if L \<in> set ks then Some (g L) else None)"
  by (induction ks) auto

lemma PranaCommand_init_ok:
  "list_all (\<lambda>b. 0 \<le> b \<and> b < 256) ops \<Longrightarrow>
   PranaCommand_init ops = Inr \<lparr>payload = COMMAND_PREFIX @ map word_of_int ops\<rparr>"
  by (simp add: PranaCommand_init_def bytes_of_ints_def)

lemma PranaSetCommand_init_ok:
  "0 \<le> b \<Longrightarrow> b < 256 \<Longrightarrow>
   PranaSetCommand_init b = Inr \<lparr>payload = COMMAND_PREFIX @ [0x04, word_of_int b]\<rparr>"
  by (simp add: PranaSetCommand_init_def PranaCommand_init_ok SET_BYTE_def)

lemma uint_byte_of_int: "0 \<le> b \<Longrightarrow> b < 256 \<Longrightarrow> uint (word_of_int b :: byte) = b"
  by (simp add: uint_word_of_int take_bit_eq_mod)

lemma speed_table:
  assumes t: "toggle = PranaSetCommand_init tb" and tb: "0 \<le> tb" "tb < 256"
    and base: "0 \<le> base" "base + 10 < 256"
  shows "dict_comp (\<lambda>i. if i = 0 then toggle else PranaSetCommand_init (base + i))
           (range_py (MAX_SPEED + 1))
         = Inr (map (\<lambda>i. (i, \<lparr>payload = COMMAND_PREFIX
                              @ [0x04, word_of_int (if i = 0 then tb else base + i)]\<rparr>))
                  [0..10])"
proof -
  have r: "range_py (MAX_SPEED + 1) = [0..10]"
    by (simp add: range_py_def MAX_SPEED_def)
  show ?thesis
    unfolding r
    by (rule dict_comp_ok) (use t tb base in \<open>auto simp: PranaSetCommand_init_ok\<close>)
qed

lemma SPEED_eval:
  "SPEED = Inr (map (\<lambda>i. (i, \<lparr>payload = COMMAND_PREFIX
                        @ [0x04, word_of_int (if i = 0 then 0x0A else 50 + i)]\<rparr>)) [0..10])"
  unfolding SPEED_def by (rule speed_table) (simp_all add: TOGGLE_def)

lemma SPEED_IN_eval:
  "SPEED_IN = Inr (map (\<lambda>i. (i, \<lparr>payload = COMMAND_PREFIX
                        @ [0x04, word_of_int (if i = 0 then 0x0D else 30 + i)]\<rparr>)) [0..10])"
  unfolding SPEED_IN_def by (rule speed_table) (simp_all add: TOGGLE_IN_def)

lemma SPEED_OUT_eval:
  "SPEED_OUT = Inr (map (\<lambda>i. (i, \<lparr>payload = COMMAND_PREFIX
                        @ [0x04, word_of_int (if i = 0 then 0x10 else 40 + i)]\<rparr>)) [0..10])"
  unfolding SPEED_OUT_def by (rule speed_table) (simp_all add: TOGGLE_OUT_def)

section \<open>Claims about the command tables\<close>

text \<open>
  Claim C6. For every level \<open>L\<close> from 1 to 10 the entry at \<open>L\<close> of the main, in and out
  speed tables is a command whose payload is the prefix, the set byte \<open>0x04\<close> and the
  single byte \<open>50 + L\<close>, \<open>30 + L\<close> and \<open>40 + L\<close> respectively. The entry at 0 is the toggle
  command of the table (bytes \<open>0x0A\<close>, \<open>0x0D\<close>, \<open>0x10\<close>), not a command for the base
  offset. The payload of a command built from opcode bytes is the prefix followed by
  exactly these bytes, and building it does not fail.
\<close>

theorem C6_speed_tables_and_encoding:
  "(1 \<le> L \<and> L \<le> 10 \<longrightarrow>
      (\<exists>table c. SPEED = Inr table \<and> map_of table L = Some c
         \<and> payload c = COMMAND_PREFIX @ [0x04, word_of_int (50 + L)])
    \<and> (\<exists>table c. SPEED_IN = Inr table \<and> map_of table L = Some c
         \<and> payload c = COMMAND_PREFIX @ [0x04, word_of_int (30 + L)])
    \<and> (\<exists>table c. SPEED_OUT = Inr table \<and> map_of table L = Some c
         \<and> payload c = COMMAND_PREFIX @ [0x04, word_of_int (40 + L)])
    \<and> uint (word_of_int (50 + L) :: byte) = 50 + L
    \<and> uint (word_of_int (30 + L) :: byte) = 30 + L
    \<and> uint (word_of_int (40 + L) :: byte) = 40 + L)
   \<and> (\<exists>table c. SPEED = Inr table \<and> map_of table 0 = Some c \<and> TOGGLE = Inr c
         \<and> payload c = COMMAND_PREFIX @ [0x04, 0x0A]
         \<and> payload c \<noteq> COMMAND_PREFIX @ [0x04, word_of_int (50 + 0)])
   \<and> (\<exists>table c. SPEED_IN = Inr table \<and> map_of table 0 = Some c \<and> TOGGLE_IN = Inr c
         \<and> payload c = COMMAND_PREFIX @ [0x04, 0x0D]
         \<and> payload c \<noteq> COMMAND_PREFIX @ [0x04, word_of_int (30 + 0)])
   \<and> (\<exists>table c. SPEED_OUT = Inr table \<and> map_of table 0 = Some c \<and> TOGGLE_OUT = Inr c
         \<and> payload c = COMMAND_PREFIX @ [0x04, 0x10]
         \<and> payload c \<noteq> COMMAND_PREFIX @ [0x04, word_of_int (40 + 0)])
   \<and> (list_all (\<lambda>b. 0 \<le> b \<and> b < 256) ops \<longrightarrow>
        (\<exists>c. PranaCommand_init ops = Inr c
           \<and> payload c = COMMAND_PREFIX @ map word_of_int ops
           \<and> map uint (drop (length COMMAND_PREFIX) (payload c)) = ops))"
proof -
  have lv: "(\<exists>table c. SPEED = Inr table \<and> map_of table L = Some c
         \<and> payload c = COMMAND_PREFIX @ [0x04, word_of_int (50 + L)])
    \<and> (\<exists>table c. SPEED_IN = Inr table \<and> map_of table L = Some c
         \<and> payload c = COMMAND_PREFIX @ [0x04, word_of_int (30 + L)])
    \<and> (\<exists>table c. SPEED_OUT = Inr table \<and> map_of table L = Some c
         \<and> payload c = COMMAND_PREFIX @ [0x04, word_of_int (40 + L)])
    \<and> uint (word_of_int (50 + L) :: byte) = 50 + L
    \<and> uint (word_of_int (30 + L) :: byte) = 30 + L
    \<and> uint (word_of_int (40 + L) :: byte) = 40 + L" if "1 \<le> L" "L \<le> 10"
    using that uint_byte_of_int [of "50 + L"] uint_byte_of_int [of "30 + L"]
      uint_byte_of_int [of "40 + L"]
    by (simp add: SPEED_eval SPEED_IN_eval SPEED_OUT_eval map_of_graph)
  have z: "(\<exists>table c. SPEED = Inr table \<and> map_of table 0 = Some c \<and> TOGGLE = Inr c
         \<and> payload c = COMMAND_PREFIX @ [0x04, 0x0A]
         \<and> payload c \<noteq> COMMAND_PREFIX @ [0x04, word_of_int (50 + 0)])"
    "(\<exists>table c. SPEED_IN = Inr table \<and> map_of table 0 = Some c \<and> TOGGLE_IN = Inr c
         \<and> payload c = COMMAND_PREFIX @ [0x04, 0x0D]
         \<and> payload c \<noteq> COMMAND_PREFIX @ [0x04, word_of_int (30 + 0)])"
    "(\<exists>table c. SPEED_OUT = Inr table \<and> map_of table 0 = Some c \<and> TOGGLE_OUT = Inr c
         \<and> payload c = COMMAND_PREFIX @ [0x04, 0x10]
         \<and> payload c \<noteq> COMMAND_PREFIX @ [0x04, word_of_int (40 + 0)])"
    by (simp_all add: SPEED_eval SPEED_IN_eval SPEED_OUT_eval map_of_graph
        TOGGLE_def TOGGLE_IN_def TOGGLE_OUT_def PranaSetCommand_init_ok)
  have e: "\<exists>c. PranaCommand_init ops = Inr c
           \<and> payload c = COMMAND_PREFIX @ map word_of_int ops
           \<and> map uint (drop (length COMMAND_PREFIX) (payload c)) = ops"
    if a: "list_all (\<lambda>b. 0 \<le> b \<and> b < 256) ops"
  proof -
    from a have "map (\<lambda>b. uint (word_of_int b :: byte)) ops = ops"
      by (induction ops) (simp_all add: uint_byte_of_int)
    then show ?thesis
      by (simp add: PranaCommand_init_ok [OF a] comp_def)
  qed
  from lv z e show ?thesis by blast
qed

text \<open>C6 at level 3 of the three tables and at the opcode bytes of the state request.\<close>

theorem C6_speed_tables_and_encoding_witness:
  "(1::int) \<le> 3 \<and> (3::int) \<le> 10
   \<and> (\<exists>table c. SPEED = Inr table \<and> map_of table 3 = Some c
         \<and> payload c = [0xBE, 0xEF, 0x04, 53])
   \<and> (\<exists>table c. SPEED_IN = Inr table \<and> map_of table 3 = Some c
         \<and> payload c = [0xBE, 0xEF, 0x04, 33])
   \<and> (\<exists>table c. SPEED_OUT = Inr table \<and> map_of table 3 = Some c
         \<and> payload c = [0xBE, 0xEF, 0x04, 43])
   \<and> list_all (\<lambda>b. 0 \<le> b \<and> b < 256) [0x05, 0x01, 0x00, 0x00, 0x00, 0x00, 0x5A :: int]
   \<and> (\<exists>c. REQUEST_STATE = Inr c
         \<and> payload c = [0xBE, 0xEF, 0x05, 0x01, 0x00, 0x00, 0x00, 0x00, 0x5A])"
  using C6_speed_tables_and_encoding [of 3 "[0x05, 0x01, 0x00, 0x00, 0x00, 0x00, 0x5A]"]
  by (simp add: COMMAND_PREFIX_def REQUEST_STATE_def) blast

section \<open>Facts about the coordinator\<close>

lemma handler_stray:
  assumes "notify_future s = Some Pending" "notify_buffer s = []"
    "take 1 c \<noteq> take 1 COMMAND_PREFIX"
  shows "ble_notification_handler s c = s"
  using assms by (simp add: ble_notification_handler_def future_done_def)

lemma feed_strays:
  assumes "notify_future s = Some Pending" "notify_buffer s = []"
    "\<forall>c \<in> set strays. take 1 c \<noteq> take 1 COMMAND_PREFIX"
  shows "feed s strays = s"
  using assms unfolding feed_def
  by (induction strays) (simp_all add: handler_stray)

lemma length_COMMAND_PREFIX: "length COMMAND_PREFIX = 2"
  by (simp add: COMMAND_PREFIX_def)

lemma handler_pending:
  assumes "notify_future s = Some Pending" "c \<noteq> []"
  shows "ble_notification_handler s c =
     (if notify_buffer s = [] \<and> take 1 c \<noteq> take 1 COMMAND_PREFIX then s
      else if 2 \<le> length (notify_buffer s @ c)
              \<and> take 2 (notify_buffer s @ c) \<noteq> COMMAND_PREFIX
      then s\<lparr>notify_buffer := []\<rparr>
      else if 100 \<le> length (notify_buffer s @ c)
      then s\<lparr>notify_future := Some (Result (Some (notify_buffer s @ c))), notify_buffer := []\<rparr>
      else s\<lparr>notify_buffer := notify_buffer s @ c\<rparr>)"
  using assms
  by (simp add: ble_notification_handler_def future_done_def Let_def length_COMMAND_PREFIX
      EXPECTED_STATE_BYTES_def del: take_append)

lemma handler_append:
  assumes "notify_future s = Some Pending" "c \<noteq> []"
    "notify_buffer s \<noteq> [] \<or> take 1 c = take 1 COMMAND_PREFIX"
    "length (notify_buffer s @ c) < 2 \<or> take 2 (notify_buffer s @ c) = COMMAND_PREFIX"
    "length (notify_buffer s @ c) < 100"
  shows "ble_notification_handler s c = s\<lparr>notify_buffer := notify_buffer s @ c\<rparr>"
  using assms(3-) unfolding handler_pending [OF assms(1,2)]
  by (auto simp del: take_append)

lemma handler_complete:
  assumes "notify_future s = Some Pending" "c \<noteq> []"
    "take 2 (notify_buffer s @ c) = COMMAND_PREFIX"
    "100 \<le> length (notify_buffer s @ c)"
  shows "ble_notification_handler s c
         = s\<lparr>notify_future := Some (Result (Some (notify_buffer s @ c))), notify_buffer := []\<rparr>"
proof -
  have "take 1 c = take 1 COMMAND_PREFIX" if "notify_buffer s = []"
  proof -
    from that assms(3) have "take 2 c = COMMAND_PREFIX" by simp
    then have "take 1 (take 2 c) = take 1 COMMAND_PREFIX" by simp
    then show ?thesis by simp
  qed
  with assms(3-) show ?thesis
    unfolding handler_pending [OF assms(1,2)] by (auto simp del: take_append)
qed

lemma feed_frame:
  assumes "length frame = 100" "take 2 frame = COMMAND_PREFIX"
    "notify_future s = Some Pending" "notify_buffer s @ concat chunks = frame"
    "\<forall>c \<in> set chunks. c \<noteq> []" "chunks \<noteq> []"
  shows "feed s chunks = s\<lparr>notify_future := Some (Result (Some frame)), notify_buffer := []\<rparr>"
  using assms(3-)
proof (induction chunks arbitrary: s)
  case Nil
  then show ?case by simp
next
  case (Cons c cs)
  let ?b = "notify_buffer s @ c"
  from Cons.prems have c: "c \<noteq> []" and f: "frame = ?b @ concat cs" by simp_all
  have pre: "take 2 ?b = COMMAND_PREFIX" if "2 \<le> length ?b"
  proof -
    from that have "take 2 frame = take 2 ?b" by (subst f) simp
    with assms(2) show ?thesis by simp
  qed
  have first: "take 1 c = take 1 COMMAND_PREFIX" if "notify_buffer s = []"
  proof -
    from that c f have "take 1 frame = take 1 c" by (cases c) simp_all
    moreover have "take 1 frame = take 1 (take 2 frame)" by simp
    ultimately show ?thesis using assms(2) by simp
  qed
  show ?case
  proof (cases "cs = []")
    case True
    with f have full: "?b = frame" by simp
    with assms(1,2) have "100 \<le> length ?b" "take 2 ?b = COMMAND_PREFIX" by simp_all
    from handler_complete [OF Cons.prems(1) c this(2) this(1)] full True
    show ?thesis by (simp add: feed_def)
  next
    case False
    with Cons.prems(3) have "concat cs \<noteq> []" by (cases cs) auto
    then have "0 < length (concat cs)" by simp
    moreover from f have "length frame = length ?b + length (concat cs)"
      by (metis length_append)
    ultimately have short: "length ?b < 100"
      using assms(1) by linarith
    from first have "notify_buffer s \<noteq> [] \<or> take 1 c = take 1 COMMAND_PREFIX" by blast
    moreover from pre have "length ?b < 2 \<or> take 2 ?b = COMMAND_PREFIX" by fastforce
    ultimately have step: "ble_notification_handler s c = s\<lparr>notify_buffer := ?b\<rparr>"
      using handler_append [OF Cons.prems(1) c _ _ short] by blast
    let ?s = "s\<lparr>notify_buffer := ?b\<rparr>"
    have "feed ?s cs = ?s\<lparr>notify_future := Some (Result (Some frame)), notify_buffer := []\<rparr>"
      using Cons.prems False f by (intro Cons.IH) simp_all
    with step show ?thesis by (simp add: feed_def)
  qed
qed

lemma update_take_100:
  assumes "100 \<le> length buf"
  shows "update st buf = update st (take 100 buf)"
proof (cases "take 2 buf = COMMAND_PREFIX")
  case True
  with assms have t: "100 \<le> length (take 100 buf)" "take 2 (take 100 buf) = COMMAND_PREFIX"
    by simp_all
  show ?thesis
    unfolding update_valid [OF assms True] update_valid [OF t] by simp
next
  case False
  then have "take 2 (take 100 buf) \<noteq> COMMAND_PREFIX" by simp
  with False show ?thesis by (simp add: update_bad_prefix)
qed































section \<open>Claims about the coordinator\<close>

text \<open>
  Claim C7. Let a consumer be waiting and the accumulator be empty. Whatever way a valid
  100-byte frame is cut into non-empty chunks, feeding the chunks in order resolves the
  future with exactly that frame, as feeding the frame in one piece does, so the decoded
  state is the same. Chunks delivered before the frame that do not start with the first
  prefix byte are dropped and leave the coordinator as it was, so they change nothing of
  what is delivered afterwards.
\<close>

theorem C7_reassembly_any_split:
  assumes "length frame = 100" and "take 2 frame = COMMAND_PREFIX"
    and "concat chunks = frame" and "\<forall>c \<in> set chunks. c \<noteq> []"
    and "\<forall>c \<in> set strays. take 1 c \<noteq> take 1 COMMAND_PREFIX"
    and "notify_future s = Some Pending" and "notify_buffer s = []"
  shows "feed s strays = s
     \<and> feed s (strays @ chunks)
         = s\<lparr>notify_future := Some (Result (Some frame)), notify_buffer := []\<rparr>
     \<and> feed s (strays @ chunks) = feed s [frame]
     \<and> (\<exists>delivered. notify_future (feed s (strays @ chunks)) = Some (Result (Some delivered))
           \<and> update st delivered = update st frame)"
proof -
  have st: "feed s strays = s"
    using feed_strays [OF assms(6,7,5)] .
  have ne: "chunks \<noteq> []"
  proof
    assume "chunks = []"
    with assms(3) have "frame = []" by simp
    with assms(1) show False by simp
  qed
  have ch: "feed s chunks
      = s\<lparr>notify_future := Some (Result (Some frame)), notify_buffer := []\<rparr>"
    using assms ne by (intro feed_frame) simp_all
  have whole: "feed s [frame]
      = s\<lparr>notify_future := Some (Result (Some frame)), notify_buffer := []\<rparr>"
    using assms by (intro feed_frame) auto
  have "feed s (strays @ chunks) = feed (feed s strays) chunks"
    by (simp add: feed_def)
  with st ch have all: "feed s (strays @ chunks)
      = s\<lparr>notify_future := Some (Result (Some frame)), notify_buffer := []\<rparr>"
    by simp
  from st all whole show ?thesis by simp
qed

text \<open>
  C7 at a concrete session: two stray chunks, then the frame in chunks of 1, 49 and 50
  bytes.
\<close>

theorem C7_reassembly_any_split_witness:
  "length (COMMAND_PREFIX @ replicate 98 0) = 100
   \<and> take 2 (COMMAND_PREFIX @ replicate 98 0) = COMMAND_PREFIX
   \<and> concat [[0xBE], 0xEF # replicate 48 0, replicate 50 0] = COMMAND_PREFIX @ replicate 98 0
   \<and> [0xBE :: byte] \<noteq> [] \<and> 0xEF # replicate 48 (0::byte) \<noteq> [] \<and> replicate 50 (0::byte) \<noteq> []
   \<and> take 1 [0x00, 0xBE] \<noteq> take 1 COMMAND_PREFIX
   \<and> take 1 [0xEF] \<noteq> take 1 COMMAND_PREFIX
   \<and> notify_future \<lparr>ble_client = Some 1, notify_buffer = [], notify_future = Some Pending,
        data = PranaState_init, calls = []\<rparr> = Some Pending
   \<and> notify_buffer \<lparr>ble_client = Some 1, notify_buffer = [], notify_future = Some Pending,
        data = PranaState_init, calls = []\<rparr> = []
   \<and> feed \<lparr>ble_client = Some 1, notify_buffer = [], notify_future = Some Pending,
        data = PranaState_init, calls = []\<rparr>
        ([[0x00, 0xBE], [0xEF]] @ [[0xBE], 0xEF # replicate 48 0, replicate 50 0])
       = \<lparr>ble_client = Some 1, notify_buffer = [],
          notify_future = Some (Result (Some (COMMAND_PREFIX @ replicate 98 0))),
          data = PranaState_init, calls = []\<rparr>"
proof -
  let ?frame = "COMMAND_PREFIX @ replicate 98 0"
  let ?chunks = "[[0xBE], 0xEF # replicate 48 0, replicate 50 (0::byte)]"
  let ?strays = "[[0x00, 0xBE], [0xEF :: byte]]"
  let ?s = "\<lparr>ble_client = Some 1, notify_buffer = [], notify_future = Some Pending,
        data = PranaState_init, calls = []\<rparr>"
  have h1: "length ?frame = 100" and h2: "take 2 ?frame = COMMAND_PREFIX"
    by (simp_all add: COMMAND_PREFIX_def)
  have "replicate 48 (0::byte) @ replicate 50 0 = replicate 98 0"
    by (simp flip: replicate_add)
  then have h3: "concat ?chunks = ?frame"
    by (simp add: COMMAND_PREFIX_def)
  have h4: "\<forall>c \<in> set ?chunks. c \<noteq> []" by simp
  have h5: "\<forall>c \<in> set ?strays. take 1 c \<noteq> take 1 COMMAND_PREFIX"
    by (simp add: COMMAND_PREFIX_def)
  have h6: "notify_future ?s = Some Pending" and h7: "notify_buffer ?s = []" by simp_all
  from C7_reassembly_any_split [OF h1 h2 h3 h4 h5 h6 h7]
  have "feed ?s (?strays @ ?chunks)
     = ?s\<lparr>notify_future := Some (Result (Some ?frame)), notify_buffer := []\<rparr>"
    by blast
  then have "feed ?s (?strays @ ?chunks)
     = \<lparr>ble_client = Some 1, notify_buffer = [],
          notify_future = Some (Result (Some ?frame)),
          data = PranaState_init, calls = []\<rparr>"
    by simp
  moreover have "take 1 [0x00, 0xBE] \<noteq> take 1 COMMAND_PREFIX"
    "take 1 [0xEF] \<noteq> take 1 COMMAND_PREFIX"
    by (simp_all add: COMMAND_PREFIX_def)
  ultimately show ?thesis using h1 h2 h3 h6 h7 by simp
qed

text \<open>
  Claim C8, as the code has it. When a chunk arrives while a consumer is waiting and
  brings the accumulator to at least 100 bytes with the prefix in front, the future is
  resolved with the whole accumulator: its first 100 bytes followed by the surplus
  bytes, if any. The accumulator is then empty, and later chunks are ignored while this
  future stays in place. Decoding reads the first 100 bytes only, so the surplus does
  not change the decoded state.
\<close>

theorem C8_frame_complete_emits_buffer:
  assumes "notify_future s = Some Pending" and "chunk \<noteq> []"
    and "take 2 (notify_buffer s @ chunk) = COMMAND_PREFIX"
    and "100 \<le> length (notify_buffer s @ chunk)"
  shows "ble_notification_handler s chunk
           = s\<lparr>notify_future := Some (Result (Some (notify_buffer s @ chunk))),
                notify_buffer := []\<rparr>
     \<and> take 100 (notify_buffer s @ chunk) @ drop 100 (notify_buffer s @ chunk)
           = notify_buffer s @ chunk
     \<and> update st (notify_buffer s @ chunk) = update st (take 100 (notify_buffer s @ chunk))
     \<and> notify_buffer (ble_notification_handler s chunk) = []
     \<and> ble_notification_handler (ble_notification_handler s chunk) later
           = ble_notification_handler s chunk"
proof -
  have a: "ble_notification_handler s chunk
           = s\<lparr>notify_future := Some (Result (Some (notify_buffer s @ chunk))),
                notify_buffer := []\<rparr>"
    using handler_complete [OF assms] .
  have b: "update st (notify_buffer s @ chunk) = update st (take 100 (notify_buffer s @ chunk))"
    using update_take_100 [OF assms(4)] .
  have c: "ble_notification_handler (ble_notification_handler s chunk) later
           = ble_notification_handler s chunk"
    unfolding a by (simp add: ble_notification_handler_def future_done_def)
  have d: "take 100 (notify_buffer s @ chunk) @ drop 100 (notify_buffer s @ chunk)
           = notify_buffer s @ chunk"
    by (rule append_take_drop_id)
  have e: "notify_buffer (ble_notification_handler s chunk) = []"
    unfolding a by simp
  from a b c d e show ?thesis by blast
qed

text \<open>C8 at a concrete session: 90 bytes accumulated, then a chunk of 20 bytes.\<close>

theorem C8_frame_complete_emits_buffer_witness:
  "notify_future \<lparr>ble_client = Some 1, notify_buffer = COMMAND_PREFIX @ replicate 88 0,
        notify_future = Some Pending, data = PranaState_init, calls = []\<rparr> = Some Pending
   \<and> replicate 20 (0::byte) \<noteq> []
   \<and> take 2 ((COMMAND_PREFIX @ replicate 88 0) @ replicate 20 0) = COMMAND_PREFIX
   \<and> 100 \<le> length ((COMMAND_PREFIX @ replicate 88 0) @ replicate 20 (0::byte))
   \<and> ble_notification_handler
        \<lparr>ble_client = Some 1, notify_buffer = COMMAND_PREFIX @ replicate 88 0,
         notify_future = Some Pending, data = PranaState_init, calls = []\<rparr>
        (replicate 20 0)
       = \<lparr>ble_client = Some 1, notify_buffer = [],
          notify_future = Some (Result (Some ((COMMAND_PREFIX @ replicate 88 0) @ replicate 20 0))),
          data = PranaState_init, calls = []\<rparr>"
proof -
  let ?s = "\<lparr>ble_client = Some 1, notify_buffer = COMMAND_PREFIX @ replicate 88 0,
        notify_future = Some Pending, data = PranaState_init, calls = []\<rparr>"
  have h1: "notify_future ?s = Some Pending" by simp
  have h2: "replicate 20 (0::byte) \<noteq> []" by simp
  have h3: "take 2 (notify_buffer ?s @ replicate 20 0) = COMMAND_PREFIX"
    by (simp add: COMMAND_PREFIX_def)
  have h4: "100 \<le> length (notify_buffer ?s @ replicate 20 0)"
    by (simp add: COMMAND_PREFIX_def)
  from C8_frame_complete_emits_buffer [OF h1 h2 h3 h4]
  have "ble_notification_handler ?s (replicate 20 0)
        = ?s\<lparr>notify_future := Some (Result (Some (notify_buffer ?s @ replicate 20 0))),
             notify_buffer := []\<rparr>"
    by blast
  with h1 h2 h3 h4 show ?thesis by simp
qed

text \<open>
  Claim C8 as stated fails: a single chunk of 101 bytes that starts with the prefix is
  handed to the consumer with all its 101 bytes, not cut to the first 100.
\<close>

theorem C8_surplus_emitted_counterexample:
  "100 \<le> length (COMMAND_PREFIX @ replicate 99 0)
   \<and> notify_future (ble_notification_handler
        \<lparr>ble_client = Some 1, notify_buffer = [], notify_future = Some Pending,
         data = PranaState_init, calls = []\<rparr> (COMMAND_PREFIX @ replicate 99 0))
       = Some (Result (Some (COMMAND_PREFIX @ replicate 99 0)))
   \<and> notify_future (ble_notification_handler
        \<lparr>ble_client = Some 1, notify_buffer = [], notify_future = Some Pending,
         data = PranaState_init, calls = []\<rparr> (COMMAND_PREFIX @ replicate 99 0))
       \<noteq> Some (Result (Some (take 100 (COMMAND_PREFIX @ replicate 99 0))))
   \<and> length (COMMAND_PREFIX @ replicate 99 (0::byte)) = 101"
proof -
  let ?c = "COMMAND_PREFIX @ replicate 99 (0::byte)"
  let ?s = "\<lparr>ble_client = Some 1, notify_buffer = [], notify_future = Some Pending,
         data = PranaState_init, calls = []\<rparr>"
  have l: "length ?c = 101" by (simp add: COMMAND_PREFIX_def)
  have e: "notify_future (ble_notification_handler ?s ?c) = Some (Result (Some ?c))"
    by (simp add: ble_notification_handler_def future_done_def Let_def COMMAND_PREFIX_def
        EXPECTED_STATE_BYTES_def)
  have "length (take 100 ?c) = 100" using l by simp
  with l have "take 100 ?c \<noteq> ?c" by (metis numeral_eq_iff semiring_norm(89))
  with l e show ?thesis by simp
qed




end
